theory Spec2Isabelle
  imports Complex_Main
begin

section \<open>JavaScript values\<close>

text \<open>
  The controller and the analysis client handle untyped JSON: request bodies, the replies
  of the database client and the bodies of HTTP responses. A number is a finite real or
  \<open>NaN\<close> (rounding and the infinities of IEEE doubles are left out); a string is its list
  of characters; an object is its list of own properties, the first binding of a name
  being the one read.
\<close>

datatype jsnum = NaN | Fin real

datatype jsval =
    JUndefined
  | JNull
  | JBool bool
  | JNum jsnum
  | JStr string
  | JArr "jsval list"
  | JObj "(string \<times> jsval) list"

text \<open>A thrown value: every error the code meets carries a \<open>message\<close>.\<close>

datatype exn = TypeError string | Error string

fun message :: "exn \<Rightarrow> string" where
  "message (TypeError m) = m"
| "message (Error m) = m"

definition bindE :: "exn + 'a \<Rightarrow> ('a \<Rightarrow> exn + 'b) \<Rightarrow> exn + 'b" where
  "bindE m f = (case m of Inl e \<Rightarrow> Inl e | Inr x \<Rightarrow> f x)"

text \<open>Truthiness, as \<open>if (v)\<close>, \<open>!v\<close> and \<open>v || w\<close> test it.\<close>

fun truthy :: "jsval \<Rightarrow> bool" where
  "truthy JUndefined = False"
| "truthy JNull = False"
| "truthy (JBool b) = b"
| "truthy (JNum NaN) = False"
| "truthy (JNum (Fin x)) = (x \<noteq> 0)"
| "truthy (JStr s) = (s \<noteq> [])"
| "truthy (JArr xs) = True"
| "truthy (JObj kvs) = True"

fun nullish :: "jsval \<Rightarrow> bool" where
  "nullish JUndefined = True"
| "nullish JNull = True"
| "nullish v = False"

definition js_or :: "jsval \<Rightarrow> jsval \<Rightarrow> jsval" where
  "js_or a b = (if truthy a then a else b)"

text \<open>
  The property read \<open>v.p\<close>: a TypeError on \<open>undefined\<close> and \<open>null\<close>, the own property of
  an object, the \<open>length\<close> of an array or a string, \<open>undefined\<close> otherwise.
\<close>

fun get :: "jsval \<Rightarrow> string \<Rightarrow> exn + jsval" where
  "get JUndefined p = Inl (TypeError (''Cannot read properties of undefined (reading '' @ p @ '')''))"
| "get JNull p = Inl (TypeError (''Cannot read properties of null (reading '' @ p @ '')''))"
| "get (JObj kvs) p = Inr (case map_of kvs p of Some v \<Rightarrow> v | None \<Rightarrow> JUndefined)"
| "get (JArr xs) p = Inr (if p = ''length'' then JNum (Fin (real (length xs))) else JUndefined)"
| "get (JStr s) p = Inr (if p = ''length'' then JNum (Fin (real (length s))) else JUndefined)"
| "get (JBool b) p = Inr JUndefined"
| "get (JNum n) p = Inr JUndefined"

text \<open>The optional chain \<open>v?.p\<close>.\<close>

definition opt_get :: "jsval \<Rightarrow> string \<Rightarrow> exn + jsval" where
  "opt_get v p = (if nullish v then Inr JUndefined else get v p)"

text \<open>
  \<open>ToNumber\<close> on the primitive values. What the engine does with a string, an array or
  an object (parsing, \<open>valueOf\<close>, \<open>toString\<close>, possibly a TypeError) is the parameter
  \<open>tn\<close>.
\<close>

fun to_number :: "(jsval \<Rightarrow> exn + jsnum) \<Rightarrow> jsval \<Rightarrow> exn + jsnum" where
  "to_number tn JUndefined = Inr NaN"
| "to_number tn JNull = Inr (Fin 0)"
| "to_number tn (JBool b) = Inr (Fin (if b then 1 else 0))"
| "to_number tn (JNum n) = Inr n"
| "to_number tn v = tn v"

fun js_times :: "jsnum \<Rightarrow> jsnum \<Rightarrow> jsnum" where
  "js_times (Fin a) (Fin b) = Fin (a * b)"
| "js_times a b = NaN"

fun js_plus :: "jsnum \<Rightarrow> jsnum \<Rightarrow> jsnum" where
  "js_plus (Fin a) (Fin b) = Fin (a + b)"
| "js_plus a b = NaN"

fun Math_min :: "jsnum \<Rightarrow> jsnum \<Rightarrow> jsnum" where
  "Math_min (Fin a) (Fin b) = Fin (min a b)"
| "Math_min a b = NaN"

text \<open>
  Strict equality \<open>===\<close> of two values that are not the same object: arrays and objects
  compare by reference, \<open>NaN\<close> equals nothing, primitive values compare by value.
\<close>

fun strict_eq :: "jsval \<Rightarrow> jsval \<Rightarrow> bool" where
  "strict_eq (JArr xs) b = False"
| "strict_eq (JObj kvs) b = False"
| "strict_eq (JNum NaN) b = False"
| "strict_eq a b = (a = b)"

section \<open>The score calculator\<close>

text \<open>
  \<open>calculateOverallScore\<close> of \<open>resume.controller.js\<close>: 50, plus twice the number of
  skills capped at 30 when \<open>analysis.skills?.length\<close> is truthy, plus twice the years of
  experience capped at 20 when \<open>analysis.experience_years\<close> is truthy, capped at 100.
\<close>

definition calculateOverallScore :: "(jsval \<Rightarrow> exn + jsnum) \<Rightarrow> jsval \<Rightarrow> exn + jsnum" where
  "calculateOverallScore tn analysis =
     bindE (bindE (get analysis ''skills'') (\<lambda>skills. opt_get skills ''length'')) (\<lambda>len.
     bindE (if truthy len
            then bindE (to_number tn len) (\<lambda>n.
                 Inr (js_plus (Fin 50) (Math_min (js_times n (Fin 2)) (Fin 30))))
            else Inr (Fin 50)) (\<lambda>score.
     bindE (get analysis ''experience_years'') (\<lambda>years.
     bindE (if truthy years
            then bindE (to_number tn years) (\<lambda>n.
                 Inr (js_plus score (Math_min (js_times n (Fin 2)) (Fin 20))))
            else Inr score) (\<lambda>score.
     Inr (Math_min score (Fin 100))))))"

section \<open>Effects\<close>

text \<open>
  The calls a handler makes to the world around it, in the order in which it makes them:
  the object store, the HTTP client, the database client and the console.
\<close>

datatype query =
    Insert string jsval
  | SelectSingle string string "(string \<times> jsval) list"
  | UpdateSingle string jsval "(string \<times> jsval) list"
  | Delete string "(string \<times> jsval) list"

text \<open>What \<open>deleteFromSupabase\<close> does inside: the removal it asks for, and what it logs.\<close>

datatype storage_event = StorageRemove jsval | StorageLog string

datatype call =
    UploadToSupabase jsval string "jsval list"
  | DeleteFromSupabase jsval "storage_event list"
  | AxiosPost string jsval nat
  | AxiosGet string nat
  | Supabase query
  | ConsoleError string string

text \<open>
  An asynchronous computation either returns or throws, and leaves the calls it made.
\<close>

type_synonym 'a io = "(exn + 'a) \<times> call list"

definition ret :: "'a \<Rightarrow> 'a io" where
  "ret x = (Inr x, [])"

definition lift :: "exn + 'a \<Rightarrow> 'a io" where
  "lift r = (r, [])"

definition bnd :: "'a io \<Rightarrow> ('a \<Rightarrow> 'b io) \<Rightarrow> 'b io" where
  "bnd m f = (case m of
      (Inl e, cs) \<Rightarrow> (Inl e, cs)
    | (Inr x, cs) \<Rightarrow> (case f x of (r, cs') \<Rightarrow> (r, cs @ cs')))"

definition try_catch :: "'a io \<Rightarrow> (exn \<Rightarrow> 'a io) \<Rightarrow> 'a io" where
  "try_catch m h = (case m of
      (Inl e, cs) \<Rightarrow> (case h e of (r, cs') \<Rightarrow> (r, cs @ cs'))
    | (Inr x, cs) \<Rightarrow> (Inr x, cs))"

definition emit :: "call \<Rightarrow> unit io" where
  "emit c = (Inr (), [c])"

text \<open>Awaiting a call to the outside: the call is made, and its outcome comes back.\<close>

definition extern :: "call \<Rightarrow> exn + 'a \<Rightarrow> 'a io" where
  "extern c r = (r, [c])"

text \<open>
  Everything the two source files take from outside: the process environment, the clock,
  the engine's coercion of non-primitive values to numbers, and the outcome of every call
  to axios, to the Supabase client and to the two storage helpers of
  \<open>lib/supabaseStorage.js\<close>. \<open>deleteFromSupabase\<close> comes with what it does inside.
\<close>

record env =
  process_env_PYTHON_API_URL :: "string option"
  Date_now :: nat
  toISOString :: string
  ToNumber :: "jsval \<Rightarrow> exn + jsnum"
  axios_post :: "string \<Rightarrow> jsval \<Rightarrow> nat \<Rightarrow> exn + jsval"
  axios_get :: "string \<Rightarrow> nat \<Rightarrow> exn + jsval"
  supabase :: "query \<Rightarrow> exn + jsval"
  uploadToSupabase :: "jsval \<Rightarrow> string \<Rightarrow> jsval list \<Rightarrow> exn + jsval"
  deleteFromSupabase :: "jsval \<Rightarrow> (exn + jsval) \<times> storage_event list"

definition await_delete :: "env \<Rightarrow> jsval \<Rightarrow> jsval io" where
  "await_delete env path =
     (case deleteFromSupabase env path of (r, events) \<Rightarrow> (r, [DeleteFromSupabase path events]))"

section \<open>The analysis service client\<close>

text \<open>\<open>process.env.PYTHON_API_URL || 'http://localhost:8000'\<close>.\<close>

definition PYTHON_API_URL :: "env \<Rightarrow> string" where
  "PYTHON_API_URL env = (case process_env_PYTHON_API_URL env of
      Some u \<Rightarrow> (if u \<noteq> [] then u else ''http://localhost:8000'')
    | None \<Rightarrow> ''http://localhost:8000'')"

text \<open>
  \<open>fileName.endsWith(suffix)\<close>: defined on strings; a TypeError on every other value, which
  has no such method.
\<close>

fun endsWith :: "jsval \<Rightarrow> string \<Rightarrow> exn + bool" where
  "endsWith (JStr s) suf =
     Inr (length suf \<le> length s \<and> drop (length s - length suf) s = suf)"
| "endsWith JUndefined suf = Inl (TypeError ''Cannot read properties of undefined (reading endsWith)'')"
| "endsWith JNull suf = Inl (TypeError ''Cannot read properties of null (reading endsWith)'')"
| "endsWith v suf = Inl (TypeError ''fileName.endsWith is not a function'')"

definition analyze_resume_body :: "jsval \<Rightarrow> jsval \<Rightarrow> bool \<Rightarrow> jsval" where
  "analyze_resume_body resumeText fileName pdf = JObj [
      (''resume_text'', resumeText),
      (''file_name'', fileName),
      (''file_type'', JStr (if pdf then ''pdf'' else ''docx''))]"

definition analyzeResumeWithAI :: "env \<Rightarrow> jsval \<Rightarrow> jsval \<Rightarrow> jsval io" where
  "analyzeResumeWithAI env resumeText fileName =
     try_catch
       (bnd (lift (endsWith fileName ''.pdf'')) (\<lambda>pdf.
        bnd (extern
              (AxiosPost (PYTHON_API_URL env @ ''/api/analyze/resume'')
                 (analyze_resume_body resumeText fileName pdf) 30000)
              (axios_post env (PYTHON_API_URL env @ ''/api/analyze/resume'')
                 (analyze_resume_body resumeText fileName pdf) 30000)) (\<lambda>response.
        lift (get response ''data''))))
       (\<lambda>error. bnd (emit (ConsoleError ''Python API - Resume analysis error:'' (message error))) (\<lambda>_.
          ret JNull))"

definition job_match_body :: "jsval \<Rightarrow> jsval \<Rightarrow> jsval \<Rightarrow> jsval \<Rightarrow> jsval" where
  "job_match_body resumeText jobDescription jobTitle requiredSkills = JObj [
      (''resume_text'', resumeText),
      (''job_description'', jobDescription),
      (''job_title'', jobTitle),
      (''required_skills'', if requiredSkills = JUndefined then JNull else requiredSkills)]"

definition calculateJobMatch :: "env \<Rightarrow> jsval \<Rightarrow> jsval \<Rightarrow> jsval \<Rightarrow> jsval \<Rightarrow> jsval io" where
  "calculateJobMatch env resumeText jobDescription jobTitle requiredSkills =
     try_catch
       (bnd (extern
              (AxiosPost (PYTHON_API_URL env @ ''/api/analyze/match'')
                 (job_match_body resumeText jobDescription jobTitle requiredSkills) 30000)
              (axios_post env (PYTHON_API_URL env @ ''/api/analyze/match'')
                 (job_match_body resumeText jobDescription jobTitle requiredSkills) 30000)) (\<lambda>response.
        lift (get response ''data'')))
       (\<lambda>error. bnd (emit (ConsoleError ''Python API - Match calculation error:'' (message error))) (\<lambda>_.
          ret JNull))"

definition no_skills :: jsval where
  "no_skills = JObj [(''skills'', JArr []), (''categorized'', JObj []), (''count'', JNum (Fin 0))]"

definition extractSkills :: "env \<Rightarrow> jsval \<Rightarrow> jsval io" where
  "extractSkills env text =
     try_catch
       (bnd (extern
              (AxiosPost (PYTHON_API_URL env @ ''/api/analyze/extract-skills'')
                 (JObj [(''text'', text)]) 15000)
              (axios_post env (PYTHON_API_URL env @ ''/api/analyze/extract-skills'')
                 (JObj [(''text'', text)]) 15000)) (\<lambda>response.
        lift (get response ''data'')))
       (\<lambda>error. bnd (emit (ConsoleError ''Python API - Skill extraction error:'' (message error))) (\<lambda>_.
          ret no_skills))"

definition checkPythonAPIHealth :: "env \<Rightarrow> jsval io" where
  "checkPythonAPIHealth env =
     try_catch
       (bnd (extern (AxiosGet (PYTHON_API_URL env @ ''/health'') 5000)
              (axios_get env (PYTHON_API_URL env @ ''/health'') 5000)) (\<lambda>response.
        bnd (lift (get response ''data'')) (\<lambda>data.
        bnd (lift (get data ''status'')) (\<lambda>status.
        ret (JBool (strict_eq status (JStr ''healthy'')))))))
       (\<lambda>error. bnd (emit (ConsoleError ''Python API health check failed:'' (message error))) (\<lambda>_.
          ret (JBool False)))"

section \<open>The resume controller\<close>

record request =
  user :: jsval
  body :: jsval
  params :: jsval

record response =
  status :: nat
  json :: jsval

text \<open>
  \<open>resumeFile.includes(',') ? resumeFile.split(',')[1] : resumeFile\<close>. On a string with a
  comma this is the text between the first comma and the second; an array has \<open>includes\<close>
  but no \<open>split\<close>; every other value has neither.
\<close>

fun base64_of :: "jsval \<Rightarrow> exn + jsval" where
  "base64_of (JStr s) =
     Inr (JStr (if CHR '','' \<in> set s
                then takeWhile (\<lambda>c. c \<noteq> CHR '','') (tl (dropWhile (\<lambda>c. c \<noteq> CHR '','') s))
                else s))"
| "base64_of (JArr xs) =
     (if JStr '','' \<in> set xs then Inl (TypeError ''resumeFile.split is not a function'')
      else Inr (JArr xs))"
| "base64_of JUndefined = Inl (TypeError ''Cannot read properties of undefined (reading includes)'')"
| "base64_of JNull = Inl (TypeError ''Cannot read properties of null (reading includes)'')"
| "base64_of v = Inl (TypeError ''resumeFile.includes is not a function'')"

text \<open>The source has a placeholder here: no parsing of pdf or docx yet.\<close>

definition extractTextFromBase64 :: "jsval \<Rightarrow> jsval \<Rightarrow> jsval io" where
  "extractTextFromBase64 base64Content fileName = ret (JStr ''Placeholder resume text'')"

text \<open>The object built from the reply of the analysis service (lines 35 to 44).\<close>

definition analysis_data :: "env \<Rightarrow> jsval \<Rightarrow> exn + jsval" where
  "analysis_data env aiAnalysis =
     bindE (get aiAnalysis ''skills'') (\<lambda>skills.
     bindE (get aiAnalysis ''categorized_skills'') (\<lambda>categorized_skills.
     bindE (get aiAnalysis ''experience_years'') (\<lambda>experience_years.
     bindE (get aiAnalysis ''education'') (\<lambda>education.
     bindE (get aiAnalysis ''certifications'') (\<lambda>certifications.
     bindE (get aiAnalysis ''summary'') (\<lambda>summary.
     bindE (calculateOverallScore (ToNumber env) aiAnalysis) (\<lambda>score.
     Inr (JObj [
       (''skills'', js_or skills (JArr [])),
       (''categorized_skills'', js_or categorized_skills (JObj [])),
       (''experience_years'', js_or experience_years (JNum (Fin 0))),
       (''education'', js_or education (JArr [])),
       (''certifications'', js_or certifications (JArr [])),
       (''summary'', js_or summary (JStr [])),
       (''score'', JNum score),
       (''analyzed_at'', JStr (toISOString env))]))))))))"

text \<open>The body of the inner \<open>try\<close> of \<open>uploadResume\<close> (lines 28 to 44).\<close>

definition enrich :: "env \<Rightarrow> jsval \<Rightarrow> jsval \<Rightarrow> jsval io" where
  "enrich env resumeFile fileName =
     bnd (lift (base64_of resumeFile)) (\<lambda>base64Content.
     bnd (extractTextFromBase64 base64Content fileName) (\<lambda>resumeText.
     bnd (analyzeResumeWithAI env resumeText fileName) (\<lambda>aiAnalysis.
     lift (analysis_data env aiAnalysis))))"

text \<open>
  \<open>let analysisData = null\<close> and the inner \<open>try\<close> with its \<open>catch\<close> (lines 25 to 48): a
  failure is logged and leaves \<open>null\<close>.
\<close>

definition analysis_or_null :: "env \<Rightarrow> jsval \<Rightarrow> jsval \<Rightarrow> jsval io" where
  "analysis_or_null env resumeFile fileName =
     try_catch (enrich env resumeFile fileName)
       (\<lambda>err. bnd (emit (ConsoleError ''AI analysis failed:'' (message err))) (\<lambda>_. ret JNull))"

text \<open>The row handed to \<open>insert\<close> (lines 53 to 60).\<close>

definition resume_row :: "jsval \<Rightarrow> jsval \<Rightarrow> jsval \<Rightarrow> jsval \<Rightarrow> exn + jsval" where
  "resume_row candidateId uploadResult fileName analysisData =
     bindE (get uploadResult ''publicUrl'') (\<lambda>publicUrl.
     bindE (get uploadResult ''path'') (\<lambda>path.
     bindE (if truthy fileName then Inr fileName else get uploadResult ''fileName'') (\<lambda>file_name.
     bindE (get uploadResult ''fileSize'') (\<lambda>fileSize.
     Inr (JObj [
       (''candidate_id'', candidateId),
       (''resume_url'', publicUrl),
       (''storage_path'', path),
       (''file_name'', file_name),
       (''file_size'', fileSize),
       (''analysis_data'', analysisData)])))))"

text \<open>
  The key of the stored object is the template \<open>resume_${candidateId}_${Date.now()}\<close>, kept
  as its pieces.
\<close>

definition storage_key :: "env \<Rightarrow> jsval \<Rightarrow> jsval list" where
  "storage_key env candidateId =
     [JStr ''resume_'', candidateId, JStr ''_'', JNum (Fin (real (Date_now env)))]"

definition uploadResume :: "env \<Rightarrow> request \<Rightarrow> response io" where
  "uploadResume env req =
     try_catch
       (bnd (lift (get (user req) ''id'')) (\<lambda>candidateId.
        bnd (lift (get (body req) ''resumeFile'')) (\<lambda>resumeFile.
        bnd (lift (get (body req) ''fileName'')) (\<lambda>fileName.
        if \<not> truthy resumeFile
        then ret \<lparr>status = 400, json = JObj [(''message'', JStr ''Resume file is required'')]\<rparr>
        else
        bnd (extern (UploadToSupabase resumeFile ''resumes'' (storage_key env candidateId))
               (uploadToSupabase env resumeFile ''resumes'' (storage_key env candidateId)))
          (\<lambda>uploadResult.
        bnd (analysis_or_null env resumeFile fileName) (\<lambda>analysisData.
        bnd (lift (resume_row candidateId uploadResult fileName analysisData)) (\<lambda>row.
        bnd (extern (Supabase (Insert ''resumes'' row)) (supabase env (Insert ''resumes'' row)))
          (\<lambda>reply.
        bnd (lift (get reply ''data'')) (\<lambda>data.
        bnd (lift (get reply ''error'')) (\<lambda>error.
        if truthy error
        then bnd (lift (get uploadResult ''path'')) (\<lambda>path.
             bnd (await_delete env path) (\<lambda>_.
             bnd (lift (get error ''message'')) (\<lambda>msg.
             ret \<lparr>status = 400, json = JObj [(''message'', msg)]\<rparr>)))
        else ret \<lparr>status = 201, json = data\<rparr>))))))))))
       (\<lambda>error. bnd (emit (ConsoleError ''uploadResume error:'' (message error))) (\<lambda>_.
          ret \<lparr>status = 500,
               json = JObj [(''message'', JStr ''Server error''),
                            (''error'', JStr (message error))]\<rparr>))"

definition getResume :: "env \<Rightarrow> request \<Rightarrow> response io" where
  "getResume env req =
     try_catch
       (bnd (lift (get (params req) ''resumeId'')) (\<lambda>resumeId.
        bnd (lift (get (user req) ''id'')) (\<lambda>userId.
        bnd (extern (Supabase (SelectSingle ''resumes'' ''*'' [(''id'', resumeId)]))
               (supabase env (SelectSingle ''resumes'' ''*'' [(''id'', resumeId)]))) (\<lambda>reply.
        bnd (lift (get reply ''data'')) (\<lambda>data.
        bnd (lift (get reply ''error'')) (\<lambda>error.
        if truthy error \<or> \<not> truthy data
        then ret \<lparr>status = 404, json = JObj [(''message'', JStr ''Resume not found'')]\<rparr>
        else
        bnd (extern (Supabase (SelectSingle ''profiles'' ''user_type'' [(''id'', userId)]))
               (supabase env (SelectSingle ''profiles'' ''user_type'' [(''id'', userId)])))
          (\<lambda>reply.
        bnd (lift (get reply ''data'')) (\<lambda>profile.
        bnd (lift (opt_get profile ''user_type'')) (\<lambda>user_type.
        bnd (lift (get data ''candidate_id'')) (\<lambda>candidate_id.
        if strict_eq user_type (JStr ''candidate'') \<and> \<not> strict_eq candidate_id userId
        then ret \<lparr>status = 403, json = JObj [(''message'', JStr ''Unauthorized'')]\<rparr>
        else ret \<lparr>status = 200, json = data\<rparr>))))))))))
       (\<lambda>error. bnd (emit (ConsoleError ''getResume error:'' (message error))) (\<lambda>_.
          ret \<lparr>status = 500, json = JObj [(''message'', JStr ''Server error'')]\<rparr>))"

definition updateResumeAnalysis :: "env \<Rightarrow> request \<Rightarrow> response io" where
  "updateResumeAnalysis env req =
     try_catch
       (bnd (lift (get (params req) ''resumeId'')) (\<lambda>resumeId.
        bnd (lift (get (body req) ''analysisData'')) (\<lambda>analysisData.
        bnd (lift (get (user req) ''id'')) (\<lambda>candidateId.
        bnd (extern
               (Supabase (UpdateSingle ''resumes'' (JObj [(''analysis_data'', analysisData)])
                  [(''id'', resumeId), (''candidate_id'', candidateId)]))
               (supabase env (UpdateSingle ''resumes'' (JObj [(''analysis_data'', analysisData)])
                  [(''id'', resumeId), (''candidate_id'', candidateId)]))) (\<lambda>reply.
        bnd (lift (get reply ''data'')) (\<lambda>data.
        bnd (lift (get reply ''error'')) (\<lambda>error.
        if truthy error
        then bnd (lift (get error ''message'')) (\<lambda>msg.
             ret \<lparr>status = 400, json = JObj [(''message'', msg)]\<rparr>)
        else ret \<lparr>status = 200, json = data\<rparr>)))))))
       (\<lambda>error. bnd (emit (ConsoleError ''updateResumeAnalysis error:'' (message error))) (\<lambda>_.
          ret \<lparr>status = 500, json = JObj [(''message'', JStr ''Server error'')]\<rparr>))"

definition deleteResume :: "env \<Rightarrow> request \<Rightarrow> response io" where
  "deleteResume env req =
     try_catch
       (bnd (lift (get (params req) ''resumeId'')) (\<lambda>resumeId.
        bnd (lift (get (user req) ''id'')) (\<lambda>candidateId.
        bnd (extern
               (Supabase (SelectSingle ''resumes'' ''storage_path''
                  [(''id'', resumeId), (''candidate_id'', candidateId)]))
               (supabase env (SelectSingle ''resumes'' ''storage_path''
                  [(''id'', resumeId), (''candidate_id'', candidateId)]))) (\<lambda>reply.
        bnd (lift (get reply ''data'')) (\<lambda>resume.
        bnd (lift (get reply ''error'')) (\<lambda>error.
        if truthy error \<or> \<not> truthy resume
        then ret \<lparr>status = 404, json = JObj [(''message'', JStr ''Resume not found'')]\<rparr>
        else
        bnd (extern
               (Supabase (Delete ''resumes'' [(''id'', resumeId), (''candidate_id'', candidateId)]))
               (supabase env
                  (Delete ''resumes'' [(''id'', resumeId), (''candidate_id'', candidateId)])))
          (\<lambda>_.
        bnd (lift (get resume ''storage_path'')) (\<lambda>storage_path.
        bnd (if truthy storage_path then await_delete env storage_path else ret JUndefined)
          (\<lambda>_.
        ret \<lparr>status = 200,
             json = JObj [(''message'', JStr ''Resume deleted successfully'')]\<rparr>)))))))))
       (\<lambda>error. bnd (emit (ConsoleError ''deleteResume error:'' (message error))) (\<lambda>_.
          ret \<lparr>status = 500, json = JObj [(''message'', JStr ''Server error'')]\<rparr>))"

section \<open>Sample requests and environments\<close>

text \<open>
  Concrete surroundings on which the theorems below are run: an analysis service that
  answers with five skills and three years of experience, one that times out, one that
  answers 200 with a body that is no analysis, an object
  store and a database that answer, a storage deletion that fails, and databases that
  refuse an insert, find no row, or know the caller as a recruiter or not at all.
\<close>

definition nan_coercion :: "jsval \<Rightarrow> exn + jsnum" where
  "nan_coercion v = Inr NaN"

definition five_skills_three_years :: jsval where
  "five_skills_three_years = JObj [
     (''skills'', JArr [JStr ''python'', JStr ''sql'', JStr ''react'', JStr ''docker'', JStr ''git'']),
     (''experience_years'', JNum (Fin 3))]"

definition minus_five_years :: jsval where
  "minus_five_years = JObj [(''skills'', JArr []), (''experience_years'', JNum (Fin (- 5)))]"

definition axios_post_ok :: "string \<Rightarrow> jsval \<Rightarrow> nat \<Rightarrow> exn + jsval" where
  "axios_post_ok url data timeout = Inr (JObj [(''data'', five_skills_three_years)])"

definition axios_post_timeout :: "string \<Rightarrow> jsval \<Rightarrow> nat \<Rightarrow> exn + jsval" where
  "axios_post_timeout url data timeout = Inl (Error ''timeout of 30000ms exceeded'')"

definition axios_get_ok :: "string \<Rightarrow> nat \<Rightarrow> exn + jsval" where
  "axios_get_ok url timeout = Inr (JObj [(''data'', JObj [(''status'', JStr ''healthy'')])])"

definition axios_get_refused :: "string \<Rightarrow> nat \<Rightarrow> exn + jsval" where
  "axios_get_refused url timeout = Inl (Error ''connect ECONNREFUSED 127.0.0.1:8000'')"

definition upload_ok :: "jsval \<Rightarrow> string \<Rightarrow> jsval list \<Rightarrow> exn + jsval" where
  "upload_ok file bucket key = Inr (JObj [
     (''publicUrl'', JStr ''https://store.example/resumes/r1''),
     (''path'', JStr ''resumes/r1''),
     (''fileName'', JStr ''r1''),
     (''fileSize'', JNum (Fin 1024))])"

definition delete_ok :: "jsval \<Rightarrow> (exn + jsval) \<times> storage_event list" where
  "delete_ok path = (Inr JUndefined, [StorageRemove path])"

definition delete_logs_failure :: "jsval \<Rightarrow> (exn + jsval) \<times> storage_event list" where
  "delete_logs_failure path =
     (Inr JUndefined, [StorageRemove path, StorageLog ''storage unavailable''])"

definition delete_throws :: "jsval \<Rightarrow> (exn + jsval) \<times> storage_event list" where
  "delete_throws path = (Inl (Error ''storage unavailable''), [StorageRemove path])"

definition stored_resume :: jsval where
  "stored_resume = JObj [
     (''id'', JStr ''r1''),
     (''candidate_id'', JStr ''u1''),
     (''storage_path'', JStr ''resumes/r1'')]"

definition found :: "jsval \<Rightarrow> exn + jsval" where
  "found row = Inr (JObj [(''data'', row), (''error'', JNull)])"

definition refused :: "string \<Rightarrow> exn + jsval" where
  "refused msg = Inr (JObj [(''data'', JNull), (''error'', JObj [(''message'', JStr msg)])])"

text \<open>A database that holds \<open>stored_resume\<close> and knows every caller as \<open>user_type\<close>.\<close>

fun db_with :: "jsval \<Rightarrow> query \<Rightarrow> exn + jsval" where
  "db_with profile (Insert t row) = found row"
| "db_with profile (SelectSingle t cols filters) =
     (if t = ''profiles'' then
        (if nullish profile then refused ''JSON object requested, multiple (or no) rows returned''
         else found profile)
      else found stored_resume)"
| "db_with profile (UpdateSingle t patch filters) = found patch"
| "db_with profile (Delete t filters) = found JNull"

fun db_insert_refused :: "query \<Rightarrow> exn + jsval" where
  "db_insert_refused (Insert t row) = refused ''new row violates row-level security policy''"
| "db_insert_refused q = db_with JNull q"


definition env_ok :: env where
  "env_ok = \<lparr>
     process_env_PYTHON_API_URL = None,
     Date_now = 1700000000000,
     toISOString = ''2023-11-14T22:13:20.000Z'',
     ToNumber = nan_coercion,
     axios_post = axios_post_ok,
     axios_get = axios_get_ok,
     supabase = db_with (JObj [(''user_type'', JStr ''candidate'')]),
     uploadToSupabase = upload_ok,
     deleteFromSupabase = delete_ok\<rparr>"

definition upload_request :: request where
  "upload_request = \<lparr>
     user = JObj [(''id'', JStr ''u1'')],
     body = JObj [(''resumeFile'', JStr ''data:application/pdf;base64,JVBERi0x''),
                  (''fileName'', JStr ''resume.pdf'')],
     params = JObj []\<rparr>"

definition empty_upload_request :: request where
  "empty_upload_request = \<lparr>
     user = JObj [(''id'', JStr ''u1'')],
     body = JObj [(''fileName'', JStr ''resume.pdf'')],
     params = JObj []\<rparr>"

text \<open>A request for the resume \<open>r1\<close> made by the user \<open>uid\<close>, carrying \<open>payload\<close>.\<close>

definition resume_request :: "string \<Rightarrow> jsval \<Rightarrow> request" where
  "resume_request uid payload = \<lparr>
     user = JObj [(''id'', JStr uid)],
     body = payload,
     params = JObj [(''resumeId'', JStr ''r1'')]\<rparr>"

definition sixteen_skills_twelve_years :: jsval where
  "sixteen_skills_twelve_years = JObj [
     (''skills'', JArr (replicate 16 (JStr ''skill''))),
     (''experience_years'', JNum (Fin 12))]"

definition minus_thirty_years :: jsval where
  "minus_thirty_years = JObj [(''skills'', JArr []), (''experience_years'', JNum (Fin (- 30)))]"

definition axios_post_minus_thirty :: "string \<Rightarrow> jsval \<Rightarrow> nat \<Rightarrow> exn + jsval" where
  "axios_post_minus_thirty url data timeout = Inr (JObj [(''data'', minus_thirty_years)])"



definition score_150 :: jsval where
  "score_150 = JObj [(''score'', JNum (Fin 150))]"

definition env_down :: env where
  "env_down = env_ok\<lparr>axios_post := axios_post_timeout, axios_get := axios_get_refused\<rparr>"

definition env_minus_thirty :: env where
  "env_minus_thirty = env_ok\<lparr>axios_post := axios_post_minus_thirty\<rparr>"

definition env_insert_refused :: env where
  "env_insert_refused = env_ok\<lparr>supabase := db_insert_refused,
     deleteFromSupabase := delete_logs_failure\<rparr>"

definition env_insert_refused_throws :: env where
  "env_insert_refused_throws = env_ok\<lparr>supabase := db_insert_refused,
     deleteFromSupabase := delete_throws\<rparr>"




definition env_recruiter :: env where
  "env_recruiter = env_ok\<lparr>supabase := db_with (JObj [(''user_type'', JStr ''recruiter'')])\<rparr>"

definition env_no_profile :: env where
  "env_no_profile = env_ok\<lparr>supabase := db_with JNull\<rparr>"

text \<open>What \<open>upload_request\<close> stores, given the analysis attached to it.\<close>

definition uploaded_row :: "jsval \<Rightarrow> jsval" where
  "uploaded_row analysisData = JObj [
     (''candidate_id'', JStr ''u1''),
     (''resume_url'', JStr ''https://store.example/resumes/r1''),
     (''storage_path'', JStr ''resumes/r1''),
     (''file_name'', JStr ''resume.pdf''),
     (''file_size'', JNum (Fin 1024)),
     (''analysis_data'', analysisData)]"

definition scored :: "jsval \<Rightarrow> real \<Rightarrow> real \<Rightarrow> jsval" where
  "scored skills years score = JObj [
     (''skills'', skills),
     (''categorized_skills'', JObj []),
     (''experience_years'', JNum (Fin years)),
     (''education'', JArr []),
     (''certifications'', JArr []),
     (''summary'', JStr []),
     (''score'', JNum (Fin score)),
     (''analyzed_at'', JStr ''2023-11-14T22:13:20.000Z'')]"

definition upload_calls :: "call list" where
  "upload_calls = [
     UploadToSupabase (JStr ''data:application/pdf;base64,JVBERi0x'') ''resumes''
       [JStr ''resume_'', JStr ''u1'', JStr ''_'', JNum (Fin 1700000000000)],
     AxiosPost ''http://localhost:8000/api/analyze/resume''
       (JObj [(''resume_text'', JStr ''Placeholder resume text''),
              (''file_name'', JStr ''resume.pdf''),
              (''file_type'', JStr ''pdf'')]) 30000]"

section \<open>Auxiliary facts\<close>

lemma bnd_Inl: "bnd (Inl e, cs) f = (Inl e, cs)"
  by (simp add: bnd_def)

lemma bnd_Inr: "bnd (Inr x, cs) f = (fst (f x), cs @ snd (f x))"
  by (simp add: bnd_def split: prod.splits)

lemma try_catch_Inl: "try_catch (Inl e, cs) h = (fst (h e), cs @ snd (h e))"
  by (simp add: try_catch_def split: prod.splits)

lemma try_catch_Inr: "try_catch (Inr x, cs) h = (Inr x, cs)"
  by (simp add: try_catch_def)

lemmas io_simps =
  bnd_Inl bnd_Inr try_catch_Inl try_catch_Inr ret_def lift_def emit_def extern_def

lemma score_of_counts:
  assumes "get analysis ''skills'' = Inr (JArr skills)"
    and "get analysis ''experience_years'' = Inr (JNum (Fin years))"
  shows "calculateOverallScore tn analysis =
    Inr (Fin (min 100 (50 + min (real (length skills) * 2) 30 + min (years * 2) 20)))"
  using assms by (simp add: calculateOverallScore_def bindE_def opt_get_def min.commute)

lemmas io_defs = bnd_def try_catch_def ret_def lift_def emit_def extern_def

lemmas sample_defs =
  env_ok_def upload_request_def resume_request_def axios_post_ok_def axios_get_ok_def
  upload_ok_def delete_ok_def stored_resume_def found_def refused_def
  five_skills_three_years_def nan_coercion_def uploaded_row_def scored_def upload_calls_def

lemmas model_defs =
  uploadResume_def getResume_def updateResumeAnalysis_def deleteResume_def
  analysis_or_null_def enrich_def analysis_data_def resume_row_def storage_key_def
  extractTextFromBase64_def analyzeResumeWithAI_def calculateJobMatch_def extractSkills_def
  checkPythonAPIHealth_def analyze_resume_body_def job_match_body_def no_skills_def
  PYTHON_API_URL_def calculateOverallScore_def await_delete_def
  bindE_def opt_get_def js_or_def

lemma strict_eq_JStr: "strict_eq v (JStr s) \<longleftrightarrow> v = JStr s"
proof (cases v)
  case (JNum n)
  then show ?thesis by (cases n) simp_all
qed simp_all

lemma Math_min_100: "Math_min x (Fin 100) = NaN \<or> (\<exists>s. Math_min x (Fin 100) = Fin s \<and> s \<le> 100)"
  by (cases x) simp_all

lemma score_at_most_100:
  assumes "calculateOverallScore tn analysis = Inr sc"
  shows "sc = NaN \<or> (\<exists>s. sc = Fin s \<and> s \<le> 100)"
proof -
  from assms obtain x where "sc = Math_min x (Fin 100)"
    by (auto simp add: calculateOverallScore_def bindE_def split: sum.splits if_splits)
  then show ?thesis
    using Math_min_100 [of x] by simp
qed



lemma analyzeResumeWithAI_calls:
  "Supabase q \<notin> set (snd (analyzeResumeWithAI env resumeText fileName))"
  by (auto simp add: analyzeResumeWithAI_def io_defs split: sum.splits prod.splits)


lemma analysis_data_score:
  assumes "analysis_data env aiAnalysis = Inr analysisData"
  shows "\<exists>sc. calculateOverallScore (ToNumber env) aiAnalysis = Inr sc
    \<and> get analysisData ''score'' = Inr (JNum sc)"
  using assms by (auto simp add: analysis_data_def bindE_def split: sum.splits)



lemma analysis_or_null_value:
  assumes "analysis_or_null env resumeFile fileName = (Inr analysisData, calls)"
  shows "analysisData = JNull
    \<or> (\<exists>aiAnalysis.
          fst (analyzeResumeWithAI env (JStr ''Placeholder resume text'') fileName) = Inr aiAnalysis
          \<and> analysis_data env aiAnalysis = Inr analysisData)"
  using assms
  by (auto simp add: analysis_or_null_def enrich_def extractTextFromBase64_def io_defs
      split: sum.splits prod.splits)

lemma analysis_or_null_calls:
  assumes "analysis_or_null env resumeFile fileName = (r, calls)"
  shows "Supabase q \<notin> set calls"
  using assms analyzeResumeWithAI_calls [of q env "JStr ''Placeholder resume text''" fileName]
  by (auto simp add: analysis_or_null_def enrich_def extractTextFromBase64_def io_defs
      split: sum.splits prod.splits)

lemma resume_row_analysis:
  assumes "resume_row candidateId uploadResult fileName analysisData = Inr row"
  shows "get row ''analysis_data'' = Inr analysisData"
  using assms by (auto simp add: resume_row_def bindE_def split: sum.splits if_splits)

lemma uploadResume_insert:
  assumes "Supabase (Insert t row) \<in> set (snd (uploadResume env req))"
  shows "\<exists>candidateId resumeFile fileName uploadResult analysisData calls.
     get (body req) ''fileName'' = Inr fileName
     \<and> analysis_or_null env resumeFile fileName = (Inr analysisData, calls)
     \<and> resume_row candidateId uploadResult fileName analysisData = Inr row"
  using assms
  by (auto simp add: uploadResume_def io_defs await_delete_def
      split: sum.splits prod.splits if_splits)
    (blast dest: analysis_or_null_calls)+

lemma getResume_found:
  assumes "get (params req) ''resumeId'' = Inr resumeId"
    and "get (user req) ''id'' = Inr userId"
    and "supabase env (SelectSingle ''resumes'' ''*'' [(''id'', resumeId)]) = Inr reply"
    and "get reply ''data'' = Inr data"
    and "get reply ''error'' = Inr error"
    and "\<not> truthy error" and "truthy data"
    and "supabase env (SelectSingle ''profiles'' ''user_type'' [(''id'', userId)]) = Inr answer"
    and "get answer ''data'' = Inr profile"
    and "opt_get profile ''user_type'' = Inr user_type"
    and "get data ''candidate_id'' = Inr candidate_id"
  shows "fst (getResume env req) =
    Inr (if strict_eq user_type (JStr ''candidate'') \<and> \<not> strict_eq candidate_id userId
         then \<lparr>status = 403, json = JObj [(''message'', JStr ''Unauthorized'')]\<rparr>
         else \<lparr>status = 200, json = data\<rparr>)"
  using assms by (simp add: getResume_def io_simps)

section \<open>Properties of the score\<close>

text \<open>
  C3. The score calculator computes
  \<open>min(100, 50 + min(skillCount * 2, 30) + min(experienceYears * 2, 20))\<close>, where
  \<open>skillCount\<close> is the length of the array \<open>analysis.skills\<close> and \<open>experienceYears\<close> the
  number \<open>analysis.experience_years\<close>; it makes no call and reads nothing but its argument.
  Five skills and three years give 66.
\<close>

theorem score_formula:
  assumes "get analysis ''skills'' = Inr (JArr skills)"
    and "get analysis ''experience_years'' = Inr (JNum (Fin years))"
  shows "calculateOverallScore tn analysis =
    Inr (Fin (min 100 (50 + min (real (length skills) * 2) 30 + min (years * 2) 20)))"
  using assms by (rule score_of_counts)

theorem score_formula_example:
  "get five_skills_three_years ''skills'' =
     Inr (JArr [JStr ''python'', JStr ''sql'', JStr ''react'', JStr ''docker'', JStr ''git''])
   \<and> get five_skills_three_years ''experience_years'' = Inr (JNum (Fin 3))
   \<and> calculateOverallScore nan_coercion five_skills_three_years = Inr (Fin 66)"
  using score_formula [of five_skills_three_years
      "[JStr ''python'', JStr ''sql'', JStr ''react'', JStr ''docker'', JStr ''git'']" 3 nan_coercion]
  by (simp add: five_skills_three_years_def)

text \<open>
  C4, as the claim states it, fails: nothing bounds the score from below, and a reply of the
  analysis service with no skills and \<open>experience_years = -5\<close> scores 40.
\<close>

theorem score_below_fifty:
  "calculateOverallScore nan_coercion minus_five_years = Inr (Fin 40) \<and> (40::real) < 50"
  by (simp add: calculateOverallScore_def bindE_def opt_get_def minus_five_years_def)

text \<open>
  C4, amended. For an array of skills and a number of years the score is at most 100, it is
  at least 50 when the years are not negative, and it does not decrease when the number of
  skills or the years grow.
\<close>

theorem score_bounds_monotone:
  assumes "get a ''skills'' = Inr (JArr ss)"
    and "get a ''experience_years'' = Inr (JNum (Fin y))"
    and "get b ''skills'' = Inr (JArr ts)"
    and "get b ''experience_years'' = Inr (JNum (Fin z))"
    and "length ss \<le> length ts" and "y \<le> z"
  shows "\<exists>s t. calculateOverallScore tn a = Inr (Fin s) \<and> calculateOverallScore tn b = Inr (Fin t)
     \<and> s \<le> t \<and> s \<le> 100 \<and> (0 \<le> y \<longrightarrow> 50 \<le> s)"
proof -
  let ?s = "min 100 (50 + min (real (length ss) * 2) 30 + min (y * 2) 20)"
  let ?t = "min 100 (50 + min (real (length ts) * 2) 30 + min (z * 2) 20)"
  have a: "calculateOverallScore tn a = Inr (Fin ?s)"
    using assms(1,2) by (rule score_of_counts)
  have b: "calculateOverallScore tn b = Inr (Fin ?t)"
    using assms(3,4) by (rule score_of_counts)
  have len: "real (length ss) \<le> real (length ts)"
    using assms(5) by simp
  have mono: "?s \<le> ?t"
    using len assms(6) by (simp add: min_def)
  have upper: "?s \<le> 100"
    by simp
  have lower: "0 \<le> y \<longrightarrow> 50 \<le> ?s"
    by (simp add: min_def)
  from a b mono upper lower show ?thesis
    by blast
qed

theorem score_bounds_monotone_example:
  "get five_skills_three_years ''experience_years'' = Inr (JNum (Fin 3))
   \<and> get sixteen_skills_twelve_years ''experience_years'' = Inr (JNum (Fin 12))
   \<and> calculateOverallScore nan_coercion five_skills_three_years = Inr (Fin 66)
   \<and> calculateOverallScore nan_coercion sixteen_skills_twelve_years = Inr (Fin 100)
   \<and> (50::real) \<le> 66 \<and> (66::real) \<le> 100"
  using score_bounds_monotone [of five_skills_three_years
      "[JStr ''python'', JStr ''sql'', JStr ''react'', JStr ''docker'', JStr ''git'']" 3
      sixteen_skills_twelve_years "replicate 16 (JStr ''skill'')" 12 nan_coercion]
  by (simp add: five_skills_three_years_def sixteen_skills_twelve_years_def
      calculateOverallScore_def bindE_def opt_get_def)

section \<open>Properties of the upload\<close>

text \<open>
  C6. An upload whose body carries no \<open>resumeFile\<close> (or a falsy one) is answered with 400
  and the message \<open>Resume file is required\<close>, and the handler has made no call by then:
  no write to the object store, no request to the analysis service, no insert.
\<close>

theorem upload_without_file:
  assumes "get (user req) ''id'' = Inr candidateId"
    and "get (body req) ''resumeFile'' = Inr resumeFile"
    and "\<not> truthy resumeFile"
  shows "uploadResume env req =
    (Inr \<lparr>status = 400, json = JObj [(''message'', JStr ''Resume file is required'')]\<rparr>, [])"
proof -
  obtain fileName where "get (body req) ''fileName'' = Inr fileName"
    using assms(2) by (cases "body req") simp_all
  then show ?thesis
    using assms by (simp add: uploadResume_def io_simps)
qed

theorem upload_without_file_example:
  "get (user empty_upload_request) ''id'' = Inr (JStr ''u1'')
   \<and> get (body empty_upload_request) ''resumeFile'' = Inr JUndefined
   \<and> uploadResume env_ok empty_upload_request =
      (Inr \<lparr>status = 400, json = JObj [(''message'', JStr ''Resume file is required'')]\<rparr>, [])"
  using upload_without_file [of empty_upload_request "JStr ''u1''" JUndefined env_ok]
  by (simp add: empty_upload_request_def)

text \<open>
  C1, as the claim states it, fails when the compensating deletion throws. The handler
  has no guard around \<open>deleteFromSupabase\<close>: the exception reaches the outer \<open>catch\<close>, which
  logs it, and the answer is 500 with the message of the deletion, not 400 with the message
  of the database.
\<close>

theorem upload_deletion_throws:
  "supabase env_insert_refused_throws (Insert ''resumes'' (uploaded_row (scored (JArr [JStr ''python'', JStr ''sql'', JStr ''react'', JStr ''docker'', JStr ''git'']) 3 66))) =
     refused ''new row violates row-level security policy''
   \<and> deleteFromSupabase env_insert_refused_throws (JStr ''resumes/r1'') =
     (Inl (Error ''storage unavailable''), [StorageRemove (JStr ''resumes/r1'')])
   \<and> uploadResume env_insert_refused_throws upload_request =
     (Inr \<lparr>status = 500,
            json = JObj [(''message'', JStr ''Server error''),
                         (''error'', JStr ''storage unavailable'')]\<rparr>,
      upload_calls @
      [Supabase (Insert ''resumes'' (uploaded_row (scored (JArr [JStr ''python'', JStr ''sql'', JStr ''react'', JStr ''docker'', JStr ''git'']) 3 66))),
       DeleteFromSupabase (JStr ''resumes/r1'') [StorageRemove (JStr ''resumes/r1'')],
       ConsoleError ''uploadResume error:'' ''storage unavailable''])"
  by (simp add: sample_defs model_defs io_simps env_insert_refused_throws_def delete_throws_def)

text \<open>
  C1, amended. When the object store has taken the file and the insert then comes back
  with an error, the handler calls \<open>deleteFromSupabase\<close> on the path just written, after the
  insert and as its last call to the outside. When that call returns, whether or not the
  removal inside it succeeded, the answer is 400 with the message of the database error;
  when the call itself throws, the outer \<open>catch\<close> logs the exception and the answer is 500
  with the message of the deletion.
\<close>

theorem upload_insert_failure_compensated:
  assumes "get (user req) ''id'' = Inr candidateId"
    and "get (body req) ''resumeFile'' = Inr resumeFile" and "truthy resumeFile"
    and "get (body req) ''fileName'' = Inr fileName"
    and "uploadToSupabase env resumeFile ''resumes'' (storage_key env candidateId) = Inr uploadResult"
    and "get uploadResult ''path'' = Inr path"
    and "analysis_or_null env resumeFile fileName = (Inr analysisData, calls)"
    and "resume_row candidateId uploadResult fileName analysisData = Inr row"
    and "supabase env (Insert ''resumes'' row) = Inr reply"
    and "get reply ''error'' = Inr error" and "truthy error"
    and "get error ''message'' = Inr msg"
    and "deleteFromSupabase env path = (cleanup, events)"
  shows "uploadResume env req =
    (Inr (case cleanup of
            Inr _ \<Rightarrow> \<lparr>status = 400, json = JObj [(''message'', msg)]\<rparr>
          | Inl e \<Rightarrow> \<lparr>status = 500,
                      json = JObj [(''message'', JStr ''Server error''),
                                   (''error'', JStr (message e))]\<rparr>),
     [UploadToSupabase resumeFile ''resumes'' (storage_key env candidateId)] @ calls @
     [Supabase (Insert ''resumes'' row), DeleteFromSupabase path events] @
     (case cleanup of Inr _ \<Rightarrow> [] | Inl e \<Rightarrow> [ConsoleError ''uploadResume error:'' (message e)]))"
proof -
  obtain data where "get reply ''data'' = Inr data"
    using assms(10) by (cases reply) simp_all
  then show ?thesis
    using assms
    by (simp add: uploadResume_def io_simps await_delete_def split: sum.splits)
qed

theorem upload_insert_failure_compensated_example:
  "supabase env_insert_refused (Insert ''resumes'' (uploaded_row (scored (JArr [JStr ''python'', JStr ''sql'', JStr ''react'', JStr ''docker'', JStr ''git'']) 3 66))) =
     refused ''new row violates row-level security policy''
   \<and> deleteFromSupabase env_insert_refused (JStr ''resumes/r1'') =
     (Inr JUndefined, [StorageRemove (JStr ''resumes/r1''), StorageLog ''storage unavailable''])
   \<and> uploadResume env_insert_refused upload_request =
     (Inr \<lparr>status = 400,
            json = JObj [(''message'', JStr ''new row violates row-level security policy'')]\<rparr>,
      upload_calls @
      [Supabase (Insert ''resumes'' (uploaded_row (scored (JArr [JStr ''python'', JStr ''sql'', JStr ''react'', JStr ''docker'', JStr ''git'']) 3 66))),
       DeleteFromSupabase (JStr ''resumes/r1'')
         [StorageRemove (JStr ''resumes/r1''), StorageLog ''storage unavailable'']])"
proof -
  have analysis: "analysis_or_null env_insert_refused
      (JStr ''data:application/pdf;base64,JVBERi0x'') (JStr ''resume.pdf'') =
    (Inr (scored (JArr [JStr ''python'', JStr ''sql'', JStr ''react'', JStr ''docker'', JStr ''git'']) 3 66),
     [AxiosPost ''http://localhost:8000/api/analyze/resume''
        (JObj [(''resume_text'', JStr ''Placeholder resume text''),
               (''file_name'', JStr ''resume.pdf''), (''file_type'', JStr ''pdf'')]) 30000])"
    by (simp add: sample_defs model_defs io_simps env_insert_refused_def)
  have row: "resume_row (JStr ''u1'') (JObj [(''publicUrl'', JStr ''https://store.example/resumes/r1''),
        (''path'', JStr ''resumes/r1''), (''fileName'', JStr ''r1''),
        (''fileSize'', JNum (Fin 1024))]) (JStr ''resume.pdf'') (scored (JArr [JStr ''python'', JStr ''sql'', JStr ''react'', JStr ''docker'', JStr ''git'']) 3 66) =
      Inr (uploaded_row (scored (JArr [JStr ''python'', JStr ''sql'', JStr ''react'', JStr ''docker'', JStr ''git'']) 3 66))"
    by (simp add: resume_row_def bindE_def uploaded_row_def)
  show ?thesis
    using upload_insert_failure_compensated [where req = upload_request
      and env = env_insert_refused
      and candidateId = "JStr ''u1''" and fileName = "JStr ''resume.pdf''"
      and resumeFile = "JStr ''data:application/pdf;base64,JVBERi0x''"
      and uploadResult = "JObj [(''publicUrl'', JStr ''https://store.example/resumes/r1''),
        (''path'', JStr ''resumes/r1''), (''fileName'', JStr ''r1''),
        (''fileSize'', JNum (Fin 1024))]"
      and path = "JStr ''resumes/r1''"
      and analysisData = "scored (JArr [JStr ''python'', JStr ''sql'', JStr ''react'', JStr ''docker'', JStr ''git'']) 3 66"
      and calls = "[AxiosPost ''http://localhost:8000/api/analyze/resume''
        (JObj [(''resume_text'', JStr ''Placeholder resume text''),
               (''file_name'', JStr ''resume.pdf''), (''file_type'', JStr ''pdf'')]) 30000]"
      and row = "uploaded_row (scored (JArr [JStr ''python'', JStr ''sql'', JStr ''react'', JStr ''docker'', JStr ''git'']) 3 66)"
      and reply = "JObj [(''data'', JNull), (''error'', JObj [(''message'',
        JStr ''new row violates row-level security policy'')])]"
      and error = "JObj [(''message'', JStr ''new row violates row-level security policy'')]"
      and msg = "JStr ''new row violates row-level security policy''"
      and cleanup = "Inr JUndefined"
      and events = "[StorageRemove (JStr ''resumes/r1''), StorageLog ''storage unavailable'']"]
      analysis row
    by (simp add: env_insert_refused_def env_ok_def upload_request_def upload_ok_def
        delete_logs_failure_def refused_def storage_key_def upload_calls_def)
qed




text \<open>
  A reply that arrives but lacks the expected fields is no failure: every field falls back
  to its default, and the score is 50.
\<close>

lemma analysis_data_of_empty_reply:
  "analysis_data env (JObj []) = Inr (JObj [
     (''skills'', JArr []),
     (''categorized_skills'', JObj []),
     (''experience_years'', JNum (Fin 0)),
     (''education'', JArr []),
     (''certifications'', JArr []),
     (''summary'', JStr []),
     (''score'', JNum (Fin 50)),
     (''analyzed_at'', JStr (toISOString env))])"
  by (simp add: analysis_data_def calculateOverallScore_def bindE_def opt_get_def js_or_def)

text \<open>
  C5, as the claim states it, fails on both paths that write \<open>analysis_data\<close>. The update
  stores whatever the caller sends, here a score of 150; the upload stores the score of the
  calculator, which is -10 for a reply with no skills and \<open>experience_years = -30\<close>.
\<close>

theorem analysis_score_out_of_range:
  "updateResumeAnalysis env_ok (resume_request ''u1'' (JObj [(''analysisData'', score_150)])) =
     (Inr \<lparr>status = 200, json = JObj [(''analysis_data'', score_150)]\<rparr>,
      [Supabase (UpdateSingle ''resumes'' (JObj [(''analysis_data'', score_150)])
         [(''id'', JStr ''r1''), (''candidate_id'', JStr ''u1'')])])
   \<and> get score_150 ''score'' = Inr (JNum (Fin 150)) \<and> (100::real) < 150
   \<and> uploadResume env_minus_thirty upload_request =
     (Inr \<lparr>status = 201, json = uploaded_row (scored (JArr []) (- 30) (- 10))\<rparr>,
      upload_calls @ [Supabase (Insert ''resumes'' (uploaded_row (scored (JArr []) (- 30) (- 10))))])
   \<and> get (scored (JArr []) (- 30) (- 10)) ''score'' = Inr (JNum (Fin (- 10))) \<and> (- 10::real) < 0"
  by (simp add: sample_defs model_defs io_simps score_150_def env_minus_thirty_def
      axios_post_minus_thirty_def minus_thirty_years_def)

text \<open>
  C5, amended. The upload writes \<open>analysis_data\<close>: once the file is stored, the insert is
  sent, and it carries what the enrichment left. Every row that \<open>uploadResume\<close> inserts
  carries an \<open>analysis_data\<close> that is \<open>null\<close> or holds as \<open>score\<close> what the score calculator
  returns on the reply of the analysis client, which is \<open>NaN\<close> or a number not above 100.
  The update checks nothing: for every \<open>analysisData\<close> in the request body the first call of
  \<open>updateResumeAnalysis\<close> is the update of \<open>analysis_data\<close> to that value, unchanged, under
  the identifier and the caller's id; it is the only query sent, and when the database
  accepts it the answer is 200 with the updated record.
\<close>

theorem analysis_data_written:
  "(Supabase (Insert t row) \<in> set (snd (uploadResume env req)) \<longrightarrow>
      (\<exists>analysisData. get row ''analysis_data'' = Inr analysisData
        \<and> (analysisData = JNull
           \<or> (\<exists>fileName aiAnalysis sc.
                 get (body req) ''fileName'' = Inr fileName
                 \<and> fst (analyzeResumeWithAI env (JStr ''Placeholder resume text'') fileName) =
                      Inr aiAnalysis
                 \<and> calculateOverallScore (ToNumber env) aiAnalysis = Inr sc
                 \<and> get analysisData ''score'' = Inr (JNum sc)
                 \<and> (sc = NaN \<or> (\<exists>s. sc = Fin s \<and> s \<le> 100))))))
   \<and> (Supabase q \<in> set (snd (updateResumeAnalysis env req)) \<longrightarrow>
      (\<exists>analysisData resumeId candidateId.
         get (body req) ''analysisData'' = Inr analysisData
         \<and> q = UpdateSingle ''resumes'' (JObj [(''analysis_data'', analysisData)])
               [(''id'', resumeId), (''candidate_id'', candidateId)]))
   \<and> (get (user req) ''id'' = Inr uploader
        \<and> get (body req) ''resumeFile'' = Inr resumeFile \<and> truthy resumeFile
        \<and> get (body req) ''fileName'' = Inr fileName
        \<and> uploadToSupabase env resumeFile ''resumes'' (storage_key env uploader) = Inr uploadResult
        \<and> analysis_or_null env resumeFile fileName = (Inr enriched, calls)
        \<and> resume_row uploader uploadResult fileName enriched = Inr inserted \<longrightarrow>
      get inserted ''analysis_data'' = Inr enriched
      \<and> (\<exists>rest. snd (uploadResume env req) =
            [UploadToSupabase resumeFile ''resumes'' (storage_key env uploader)] @ calls @
            Supabase (Insert ''resumes'' inserted) # rest))
   \<and> (get (params req) ''resumeId'' = Inr resumeId
        \<and> get (body req) ''analysisData'' = Inr analysisData
        \<and> get (user req) ''id'' = Inr candidateId \<longrightarrow>
      (\<exists>rest. snd (updateResumeAnalysis env req) =
          Supabase (UpdateSingle ''resumes'' (JObj [(''analysis_data'', analysisData)])
            [(''id'', resumeId), (''candidate_id'', candidateId)]) # rest
        \<and> (\<forall>q'. Supabase q' \<notin> set rest)))
   \<and> (get (params req) ''resumeId'' = Inr resumeId
        \<and> get (body req) ''analysisData'' = Inr analysisData
        \<and> get (user req) ''id'' = Inr candidateId
        \<and> supabase env (UpdateSingle ''resumes'' (JObj [(''analysis_data'', analysisData)])
              [(''id'', resumeId), (''candidate_id'', candidateId)]) = Inr reply
        \<and> get reply ''data'' = Inr data \<and> get reply ''error'' = Inr error
        \<and> \<not> truthy error \<longrightarrow>
      updateResumeAnalysis env req =
        (Inr \<lparr>status = 200, json = data\<rparr>,
         [Supabase (UpdateSingle ''resumes'' (JObj [(''analysis_data'', analysisData)])
            [(''id'', resumeId), (''candidate_id'', candidateId)])]))"
proof -
  have upload: "\<exists>analysisData. get row ''analysis_data'' = Inr analysisData
        \<and> (analysisData = JNull
           \<or> (\<exists>fileName aiAnalysis sc.
                 get (body req) ''fileName'' = Inr fileName
                 \<and> fst (analyzeResumeWithAI env (JStr ''Placeholder resume text'') fileName) =
                      Inr aiAnalysis
                 \<and> calculateOverallScore (ToNumber env) aiAnalysis = Inr sc
                 \<and> get analysisData ''score'' = Inr (JNum sc)
                 \<and> (sc = NaN \<or> (\<exists>s. sc = Fin s \<and> s \<le> 100))))"
    if "Supabase (Insert t row) \<in> set (snd (uploadResume env req))"
  proof -
    from that obtain candidateId resumeFile fileName uploadResult analysisData calls
      where name: "get (body req) ''fileName'' = Inr fileName"
        and an: "analysis_or_null env resumeFile fileName = (Inr analysisData, calls)"
        and row: "resume_row candidateId uploadResult fileName analysisData = Inr row"
      using uploadResume_insert by blast
    have stored: "get row ''analysis_data'' = Inr analysisData"
      using row by (rule resume_row_analysis)
    show ?thesis
    proof (cases "analysisData = JNull")
      case True
      with stored show ?thesis by blast
    next
      case False
      with an obtain aiAnalysis
        where ai: "fst (analyzeResumeWithAI env (JStr ''Placeholder resume text'') fileName) =
            Inr aiAnalysis"
          and ad: "analysis_data env aiAnalysis = Inr analysisData"
        using analysis_or_null_value by blast
      from ad obtain sc where sc: "calculateOverallScore (ToNumber env) aiAnalysis = Inr sc"
          and score: "get analysisData ''score'' = Inr (JNum sc)"
        using analysis_data_score by blast
      from sc have "sc = NaN \<or> (\<exists>s. sc = Fin s \<and> s \<le> 100)"
        by (rule score_at_most_100)
      with stored name ai sc score show ?thesis
        by blast
    qed
  qed
  have update: "\<exists>analysisData resumeId candidateId.
         get (body req) ''analysisData'' = Inr analysisData
         \<and> q = UpdateSingle ''resumes'' (JObj [(''analysis_data'', analysisData)])
               [(''id'', resumeId), (''candidate_id'', candidateId)]"
    if "Supabase q \<in> set (snd (updateResumeAnalysis env req))"
    using that
    by (auto simp add: updateResumeAnalysis_def io_defs split: sum.splits prod.splits if_splits)
  have inserted: "get inserted ''analysis_data'' = Inr enriched
      \<and> (\<exists>rest. snd (uploadResume env req) =
            [UploadToSupabase resumeFile ''resumes'' (storage_key env uploader)] @ calls @
            Supabase (Insert ''resumes'' inserted) # rest)"
    if "get (user req) ''id'' = Inr uploader
        \<and> get (body req) ''resumeFile'' = Inr resumeFile \<and> truthy resumeFile
        \<and> get (body req) ''fileName'' = Inr fileName
        \<and> uploadToSupabase env resumeFile ''resumes'' (storage_key env uploader) = Inr uploadResult
        \<and> analysis_or_null env resumeFile fileName = (Inr enriched, calls)
        \<and> resume_row uploader uploadResult fileName enriched = Inr inserted"
  proof -
    have "get inserted ''analysis_data'' = Inr enriched"
      using that resume_row_analysis by blast
    moreover have "\<exists>rest. snd (uploadResume env req) =
            [UploadToSupabase resumeFile ''resumes'' (storage_key env uploader)] @ calls @
            Supabase (Insert ''resumes'' inserted) # rest"
      using that
      by (auto simp add: uploadResume_def io_defs await_delete_def
          split: sum.splits prod.splits if_splits)
    ultimately show ?thesis
      by blast
  qed
  have sent: "\<exists>rest. snd (updateResumeAnalysis env req) =
          Supabase (UpdateSingle ''resumes'' (JObj [(''analysis_data'', analysisData)])
            [(''id'', resumeId), (''candidate_id'', candidateId)]) # rest
        \<and> (\<forall>q'. Supabase q' \<notin> set rest)"
    if "get (params req) ''resumeId'' = Inr resumeId
        \<and> get (body req) ''analysisData'' = Inr analysisData
        \<and> get (user req) ''id'' = Inr candidateId"
    using that
    by (auto simp add: updateResumeAnalysis_def io_defs split: sum.splits prod.splits if_splits)
  have accepted: "updateResumeAnalysis env req =
        (Inr \<lparr>status = 200, json = data\<rparr>,
         [Supabase (UpdateSingle ''resumes'' (JObj [(''analysis_data'', analysisData)])
            [(''id'', resumeId), (''candidate_id'', candidateId)])])"
    if "get (params req) ''resumeId'' = Inr resumeId
        \<and> get (body req) ''analysisData'' = Inr analysisData
        \<and> get (user req) ''id'' = Inr candidateId
        \<and> supabase env (UpdateSingle ''resumes'' (JObj [(''analysis_data'', analysisData)])
              [(''id'', resumeId), (''candidate_id'', candidateId)]) = Inr reply
        \<and> get reply ''data'' = Inr data \<and> get reply ''error'' = Inr error
        \<and> \<not> truthy error"
    using that by (simp add: updateResumeAnalysis_def io_simps)
  from upload update inserted sent accepted show ?thesis
    by blast
qed

theorem analysis_data_written_example:
  "get (body (resume_request ''u1'' (JObj [(''analysisData'', score_150)]))) ''analysisData'' =
       Inr score_150
   \<and> get score_150 ''score'' = Inr (JNum (Fin 150))
   \<and> updateResumeAnalysis env_ok (resume_request ''u1'' (JObj [(''analysisData'', score_150)])) =
     (Inr \<lparr>status = 200, json = JObj [(''analysis_data'', score_150)]\<rparr>,
      [Supabase (UpdateSingle ''resumes'' (JObj [(''analysis_data'', score_150)])
         [(''id'', JStr ''r1''), (''candidate_id'', JStr ''u1'')])])
   \<and> get (uploaded_row (scored (JArr [JStr ''python'', JStr ''sql'', JStr ''react'', JStr ''docker'', JStr ''git'']) 3 66)) ''analysis_data'' = Inr (scored (JArr [JStr ''python'', JStr ''sql'', JStr ''react'', JStr ''docker'', JStr ''git'']) 3 66)
   \<and> get (scored (JArr [JStr ''python'', JStr ''sql'', JStr ''react'', JStr ''docker'', JStr ''git'']) 3 66) ''score'' = Inr (JNum (Fin 66))
   \<and> (66::real) \<le> 100
   \<and> Supabase (Insert ''resumes'' (uploaded_row (scored (JArr [JStr ''python'', JStr ''sql'', JStr ''react'', JStr ''docker'', JStr ''git'']) 3 66)))
       \<in> set (snd (uploadResume env_ok upload_request))"
proof -
  have analysis: "analysis_or_null env_ok
      (JStr ''data:application/pdf;base64,JVBERi0x'') (JStr ''resume.pdf'') =
    (Inr (scored (JArr [JStr ''python'', JStr ''sql'', JStr ''react'', JStr ''docker'', JStr ''git'']) 3 66),
     [AxiosPost ''http://localhost:8000/api/analyze/resume''
        (JObj [(''resume_text'', JStr ''Placeholder resume text''),
               (''file_name'', JStr ''resume.pdf''), (''file_type'', JStr ''pdf'')]) 30000])"
    by (simp add: sample_defs model_defs io_simps)
  have row: "resume_row (JStr ''u1'') (JObj [(''publicUrl'', JStr ''https://store.example/resumes/r1''),
        (''path'', JStr ''resumes/r1''), (''fileName'', JStr ''r1''),
        (''fileSize'', JNum (Fin 1024))]) (JStr ''resume.pdf'') (scored (JArr [JStr ''python'', JStr ''sql'', JStr ''react'', JStr ''docker'', JStr ''git'']) 3 66) =
      Inr (uploaded_row (scored (JArr [JStr ''python'', JStr ''sql'', JStr ''react'', JStr ''docker'', JStr ''git'']) 3 66))"
    by (simp add: resume_row_def bindE_def uploaded_row_def)
  have written: "\<exists>rest. snd (uploadResume env_ok upload_request) =
      [UploadToSupabase (JStr ''data:application/pdf;base64,JVBERi0x'') ''resumes''
         (storage_key env_ok (JStr ''u1''))] @
      [AxiosPost ''http://localhost:8000/api/analyze/resume''
        (JObj [(''resume_text'', JStr ''Placeholder resume text''),
               (''file_name'', JStr ''resume.pdf''), (''file_type'', JStr ''pdf'')]) 30000] @
      Supabase (Insert ''resumes'' (uploaded_row (scored (JArr [JStr ''python'', JStr ''sql'', JStr ''react'', JStr ''docker'', JStr ''git'']) 3 66))) # rest"
    using analysis_data_written [where env = env_ok and req = upload_request
      and uploader = "JStr ''u1''" and fileName = "JStr ''resume.pdf''"
      and resumeFile = "JStr ''data:application/pdf;base64,JVBERi0x''"
      and uploadResult = "JObj [(''publicUrl'', JStr ''https://store.example/resumes/r1''),
        (''path'', JStr ''resumes/r1''), (''fileName'', JStr ''r1''),
        (''fileSize'', JNum (Fin 1024))]"
      and enriched = "scored (JArr [JStr ''python'', JStr ''sql'', JStr ''react'', JStr ''docker'', JStr ''git'']) 3 66"
      and calls = "[AxiosPost ''http://localhost:8000/api/analyze/resume''
        (JObj [(''resume_text'', JStr ''Placeholder resume text''),
               (''file_name'', JStr ''resume.pdf''), (''file_type'', JStr ''pdf'')]) 30000]"
      and inserted = "uploaded_row (scored (JArr [JStr ''python'', JStr ''sql'', JStr ''react'', JStr ''docker'', JStr ''git'']) 3 66)"]
      analysis row
    by (simp add: env_ok_def upload_request_def upload_ok_def)
  then have inserted: "Supabase (Insert ''resumes'' (uploaded_row (scored (JArr [JStr ''python'', JStr ''sql'', JStr ''react'', JStr ''docker'', JStr ''git'']) 3 66)))
       \<in> set (snd (uploadResume env_ok upload_request))"
    by auto
  have updated: "updateResumeAnalysis env_ok
      (resume_request ''u1'' (JObj [(''analysisData'', score_150)])) =
     (Inr \<lparr>status = 200, json = JObj [(''analysis_data'', score_150)]\<rparr>,
      [Supabase (UpdateSingle ''resumes'' (JObj [(''analysis_data'', score_150)])
         [(''id'', JStr ''r1''), (''candidate_id'', JStr ''u1'')])])"
    using analysis_data_written [where env = env_ok
      and req = "resume_request ''u1'' (JObj [(''analysisData'', score_150)])"
      and resumeId = "JStr ''r1''" and candidateId = "JStr ''u1''"
      and analysisData = score_150
      and reply = "JObj [(''data'', JObj [(''analysis_data'', score_150)]), (''error'', JNull)]"
      and data = "JObj [(''analysis_data'', score_150)]" and error = JNull]
    by (simp add: env_ok_def resume_request_def found_def)
  from inserted updated show ?thesis
    by (simp add: uploaded_row_def scored_def resume_request_def score_150_def)
qed

section \<open>Properties of the analysis service client\<close>

text \<open>
  C9. None of the four calls of the analysis service client raises. When the request
  cannot be prepared, the HTTP call is rejected or the body of the response cannot be
  read, \<open>analyzeResumeWithAI\<close> and \<open>calculateJobMatch\<close> return \<open>null\<close>, \<open>extractSkills\<close>
  returns \<open>{skills: [], categorized: {}, count: 0}\<close> and \<open>checkPythonAPIHealth\<close> returns
  \<open>false\<close>; the health check returns \<open>true\<close> exactly when the response carries the status
  \<open>healthy\<close>.
\<close>

theorem client_never_raises:
  "(\<exists>v. fst (analyzeResumeWithAI env resumeText fileName) = Inr v)
   \<and> (\<exists>v. fst (calculateJobMatch env resumeText jobDescription jobTitle requiredSkills) = Inr v)
   \<and> (\<exists>v. fst (extractSkills env content) = Inr v)
   \<and> (\<exists>b. fst (checkPythonAPIHealth env) = Inr (JBool b))
   \<and> (bindE (endsWith fileName ''.pdf'') (\<lambda>pdf.
         bindE (axios_post env (PYTHON_API_URL env @ ''/api/analyze/resume'')
                  (analyze_resume_body resumeText fileName pdf) 30000) (\<lambda>response.
         get response ''data'')) = Inl ea \<longrightarrow>
        fst (analyzeResumeWithAI env resumeText fileName) = Inr JNull)
   \<and> (bindE (axios_post env (PYTHON_API_URL env @ ''/api/analyze/match'')
                  (job_match_body resumeText jobDescription jobTitle requiredSkills) 30000)
          (\<lambda>response. get response ''data'') = Inl eb \<longrightarrow>
        fst (calculateJobMatch env resumeText jobDescription jobTitle requiredSkills) = Inr JNull)
   \<and> (bindE (axios_post env (PYTHON_API_URL env @ ''/api/analyze/extract-skills'')
                  (JObj [(''text'', content)]) 15000)
          (\<lambda>response. get response ''data'') = Inl ec \<longrightarrow>
        fst (extractSkills env content) =
          Inr (JObj [(''skills'', JArr []), (''categorized'', JObj []), (''count'', JNum (Fin 0))]))
   \<and> (bindE (axios_get env (PYTHON_API_URL env @ ''/health'') 5000) (\<lambda>response.
         bindE (get response ''data'') (\<lambda>data. get data ''status'')) = Inl ed \<longrightarrow>
        fst (checkPythonAPIHealth env) = Inr (JBool False))
   \<and> (fst (checkPythonAPIHealth env) = Inr (JBool True) \<longleftrightarrow>
        (\<exists>response data. axios_get env (PYTHON_API_URL env @ ''/health'') 5000 = Inr response
           \<and> get response ''data'' = Inr data \<and> get data ''status'' = Inr (JStr ''healthy'')))"
proof -
  have a: "\<exists>v. fst (analyzeResumeWithAI env resumeText fileName) = Inr v"
    by (auto simp add: analyzeResumeWithAI_def io_defs split: sum.splits prod.splits)
  have b: "\<exists>v. fst (calculateJobMatch env resumeText jobDescription jobTitle requiredSkills) = Inr v"
    by (auto simp add: calculateJobMatch_def io_defs split: sum.splits prod.splits)
  have c: "\<exists>v. fst (extractSkills env content) = Inr v"
    by (auto simp add: extractSkills_def io_defs split: sum.splits prod.splits)
  have d: "\<exists>b. fst (checkPythonAPIHealth env) = Inr (JBool b)"
    by (auto simp add: checkPythonAPIHealth_def io_defs split: sum.splits prod.splits)
  have e: "bindE (endsWith fileName ''.pdf'') (\<lambda>pdf.
         bindE (axios_post env (PYTHON_API_URL env @ ''/api/analyze/resume'')
                  (analyze_resume_body resumeText fileName pdf) 30000) (\<lambda>response.
         get response ''data'')) = Inl ea \<longrightarrow>
        fst (analyzeResumeWithAI env resumeText fileName) = Inr JNull"
    by (auto simp add: analyzeResumeWithAI_def bindE_def io_defs split: sum.splits prod.splits)
  have f: "bindE (axios_post env (PYTHON_API_URL env @ ''/api/analyze/match'')
                  (job_match_body resumeText jobDescription jobTitle requiredSkills) 30000)
          (\<lambda>response. get response ''data'') = Inl eb \<longrightarrow>
        fst (calculateJobMatch env resumeText jobDescription jobTitle requiredSkills) = Inr JNull"
    by (auto simp add: calculateJobMatch_def bindE_def io_defs split: sum.splits prod.splits)
  have g: "bindE (axios_post env (PYTHON_API_URL env @ ''/api/analyze/extract-skills'')
                  (JObj [(''text'', content)]) 15000)
          (\<lambda>response. get response ''data'') = Inl ec \<longrightarrow>
        fst (extractSkills env content) =
          Inr (JObj [(''skills'', JArr []), (''categorized'', JObj []), (''count'', JNum (Fin 0))])"
    by (auto simp add: extractSkills_def no_skills_def bindE_def io_defs
        split: sum.splits prod.splits)
  have h: "bindE (axios_get env (PYTHON_API_URL env @ ''/health'') 5000) (\<lambda>response.
         bindE (get response ''data'') (\<lambda>data. get data ''status'')) = Inl ed \<longrightarrow>
        fst (checkPythonAPIHealth env) = Inr (JBool False)"
    by (auto simp add: checkPythonAPIHealth_def bindE_def io_defs split: sum.splits prod.splits)
  have i: "fst (checkPythonAPIHealth env) = Inr (JBool True) \<longleftrightarrow>
        (\<exists>response data. axios_get env (PYTHON_API_URL env @ ''/health'') 5000 = Inr response
           \<and> get response ''data'' = Inr data \<and> get data ''status'' = Inr (JStr ''healthy''))"
    by (auto simp add: checkPythonAPIHealth_def io_defs strict_eq_JStr
        split: sum.splits prod.splits)
  from a b c d e f g h i show ?thesis
    by blast
qed

theorem client_never_raises_example:
  "axios_post env_down ''http://localhost:8000/api/analyze/resume''
      (analyze_resume_body (JStr ''text'') (JStr ''resume.pdf'') True) 30000 =
     Inl (Error ''timeout of 30000ms exceeded'')
   \<and> fst (analyzeResumeWithAI env_down (JStr ''text'') (JStr ''resume.pdf'')) = Inr JNull
   \<and> fst (calculateJobMatch env_down (JStr ''text'') (JStr ''job'') (JStr ''title'') JUndefined) =
       Inr JNull
   \<and> fst (extractSkills env_down (JStr ''text'')) =
       Inr (JObj [(''skills'', JArr []), (''categorized'', JObj []), (''count'', JNum (Fin 0))])
   \<and> axios_get env_down ''http://localhost:8000/health'' 5000 =
       Inl (Error ''connect ECONNREFUSED 127.0.0.1:8000'')
   \<and> fst (checkPythonAPIHealth env_down) = Inr (JBool False)
   \<and> axios_get env_ok ''http://localhost:8000/health'' 5000 =
       Inr (JObj [(''data'', JObj [(''status'', JStr ''healthy'')])])
   \<and> fst (checkPythonAPIHealth env_ok) = Inr (JBool True)"
  using client_never_raises [where env = env_down and resumeText = "JStr ''text''"
      and fileName = "JStr ''resume.pdf''" and jobDescription = "JStr ''job''"
      and jobTitle = "JStr ''title''" and requiredSkills = JUndefined and content = "JStr ''text''"
      and ea = "Error ''timeout of 30000ms exceeded''"
      and eb = "Error ''timeout of 30000ms exceeded''"
      and ec = "Error ''timeout of 30000ms exceeded''"
      and ed = "Error ''connect ECONNREFUSED 127.0.0.1:8000''"]
    client_never_raises [where env = env_ok]
  by (simp add: env_down_def env_ok_def axios_post_timeout_def axios_get_refused_def
      axios_get_ok_def PYTHON_API_URL_def bindE_def)

section \<open>Properties of reading one resume\<close>

text \<open>
  C8. \<open>getResume\<close> fetches the record by its id. When the caller's profile says
  \<open>candidate\<close> and the record belongs to someone else, the answer is 403; when the profile
  names any other type of user, a reviewer, the answer is 200 with the record, whoever
  owns it.
\<close>

theorem getResume_ownership:
  assumes "get (params req) ''resumeId'' = Inr resumeId"
    and "get (user req) ''id'' = Inr userId"
    and "supabase env (SelectSingle ''resumes'' ''*'' [(''id'', resumeId)]) = Inr reply"
    and "get reply ''data'' = Inr data"
    and "get reply ''error'' = Inr error"
    and "\<not> truthy error" and "truthy data"
    and "get data ''candidate_id'' = Inr candidate_id"
    and "supabase env (SelectSingle ''profiles'' ''user_type'' [(''id'', userId)]) = Inr answer"
    and "get answer ''data'' = Inr profile"
    and "get profile ''user_type'' = Inr (JStr user_type)"
  shows "(user_type = ''candidate'' \<and> \<not> strict_eq candidate_id userId \<longrightarrow>
            fst (getResume env req) =
              Inr \<lparr>status = 403, json = JObj [(''message'', JStr ''Unauthorized'')]\<rparr>)
       \<and> (user_type \<noteq> ''candidate'' \<longrightarrow>
            fst (getResume env req) = Inr \<lparr>status = 200, json = data\<rparr>)"
proof -
  have "\<not> nullish profile"
    using assms(11) by (cases profile) simp_all
  then have "opt_get profile ''user_type'' = Inr (JStr user_type)"
    using assms(11) by (simp add: opt_get_def)
  from getResume_found [OF assms(1-7) assms(9,10) this assms(8)]
  show ?thesis by simp
qed

theorem getResume_ownership_example:
  "get stored_resume ''candidate_id'' = Inr (JStr ''u1'')
   \<and> \<not> strict_eq (JStr ''u1'') (JStr ''u2'')
   \<and> fst (getResume env_ok (resume_request ''u2'' JNull)) =
       Inr \<lparr>status = 403, json = JObj [(''message'', JStr ''Unauthorized'')]\<rparr>
   \<and> fst (getResume env_recruiter (resume_request ''u2'' JNull)) =
       Inr \<lparr>status = 200, json = stored_resume\<rparr>"
  using getResume_ownership [where env = env_ok and req = "resume_request ''u2'' JNull"
      and resumeId = "JStr ''r1''" and userId = "JStr ''u2''"
      and reply = "JObj [(''data'', stored_resume), (''error'', JNull)]"
      and data = stored_resume and error = JNull and candidate_id = "JStr ''u1''"
      and answer = "JObj [(''data'', JObj [(''user_type'', JStr ''candidate'')]), (''error'', JNull)]"
      and profile = "JObj [(''user_type'', JStr ''candidate'')]" and user_type = "''candidate''"]
    getResume_ownership [where env = env_recruiter and req = "resume_request ''u2'' JNull"
      and resumeId = "JStr ''r1''" and userId = "JStr ''u2''"
      and reply = "JObj [(''data'', stored_resume), (''error'', JNull)]"
      and data = stored_resume and error = JNull and candidate_id = "JStr ''u1''"
      and answer = "JObj [(''data'', JObj [(''user_type'', JStr ''recruiter'')]), (''error'', JNull)]"
      and profile = "JObj [(''user_type'', JStr ''recruiter'')]" and user_type = "''recruiter''"]
  by (simp add: sample_defs env_recruiter_def)

text \<open>
  C10. Once the record is found, the ownership check refuses only a caller whose profile
  row exists with \<open>user_type\<close> equal to \<open>candidate\<close> and who does not own the record: a
  caller whose profile lookup gives no row, and a caller of any other type, receive the
  record with 200.
\<close>

theorem getResume_check_only_for_candidates:
  assumes "get (params req) ''resumeId'' = Inr resumeId"
    and "get (user req) ''id'' = Inr userId"
    and "supabase env (SelectSingle ''resumes'' ''*'' [(''id'', resumeId)]) = Inr reply"
    and "get reply ''data'' = Inr data"
    and "get reply ''error'' = Inr error"
    and "\<not> truthy error" and "truthy data"
    and "get data ''candidate_id'' = Inr candidate_id"
    and "supabase env (SelectSingle ''profiles'' ''user_type'' [(''id'', userId)]) = Inr answer"
    and "get answer ''data'' = Inr profile"
  shows "fst (getResume env req) =
      Inr (if get profile ''user_type'' = Inr (JStr ''candidate'') \<and> \<not> strict_eq candidate_id userId
           then \<lparr>status = 403, json = JObj [(''message'', JStr ''Unauthorized'')]\<rparr>
           else \<lparr>status = 200, json = data\<rparr>)
     \<and> (nullish profile \<longrightarrow> fst (getResume env req) = Inr \<lparr>status = 200, json = data\<rparr>)"
proof -
  obtain user_type where ut: "opt_get profile ''user_type'' = Inr user_type"
    by (cases profile) (simp_all add: opt_get_def)
  have res: "fst (getResume env req) =
    Inr (if user_type = JStr ''candidate'' \<and> \<not> strict_eq candidate_id userId
         then \<lparr>status = 403, json = JObj [(''message'', JStr ''Unauthorized'')]\<rparr>
         else \<lparr>status = 200, json = data\<rparr>)"
    using getResume_found [OF assms(1-7) assms(9,10) ut assms(8)]
    by (simp add: strict_eq_JStr)
  have null: "nullish profile \<Longrightarrow> user_type = JUndefined"
    using ut by (simp add: opt_get_def)
  have absent: "nullish profile \<Longrightarrow> get profile ''user_type'' \<noteq> Inr (JStr ''candidate'')"
    by (cases profile) simp_all
  have present: "\<not> nullish profile \<Longrightarrow> get profile ''user_type'' = Inr user_type"
    using ut by (simp add: opt_get_def)
  have same: "user_type = JStr ''candidate'' \<longleftrightarrow> get profile ''user_type'' = Inr (JStr ''candidate'')"
    using null absent present by (cases "nullish profile") auto
  from res same absent show ?thesis
    by auto
qed

theorem getResume_check_only_for_candidates_example:
  "supabase env_no_profile (SelectSingle ''profiles'' ''user_type'' [(''id'', JStr ''u2'')]) =
     refused ''JSON object requested, multiple (or no) rows returned''
   \<and> fst (getResume env_no_profile (resume_request ''u2'' JNull)) =
       Inr \<lparr>status = 200, json = stored_resume\<rparr>
   \<and> fst (getResume env_recruiter (resume_request ''u2'' JNull)) =
       Inr \<lparr>status = 200, json = stored_resume\<rparr>
   \<and> fst (getResume env_ok (resume_request ''u2'' JNull)) =
       Inr \<lparr>status = 403, json = JObj [(''message'', JStr ''Unauthorized'')]\<rparr>"
  using getResume_check_only_for_candidates [where env = env_no_profile
      and req = "resume_request ''u2'' JNull"
      and resumeId = "JStr ''r1''" and userId = "JStr ''u2''"
      and reply = "JObj [(''data'', stored_resume), (''error'', JNull)]"
      and data = stored_resume and error = JNull and candidate_id = "JStr ''u1''"
      and answer = "JObj [(''data'', JNull), (''error'', JObj [(''message'',
        JStr ''JSON object requested, multiple (or no) rows returned'')])]"
      and profile = JNull]
    getResume_check_only_for_candidates [where env = env_recruiter
      and req = "resume_request ''u2'' JNull"
      and resumeId = "JStr ''r1''" and userId = "JStr ''u2''"
      and reply = "JObj [(''data'', stored_resume), (''error'', JNull)]"
      and data = stored_resume and error = JNull and candidate_id = "JStr ''u1''"
      and answer = "JObj [(''data'', JObj [(''user_type'', JStr ''recruiter'')]), (''error'', JNull)]"
      and profile = "JObj [(''user_type'', JStr ''recruiter'')]"]
    getResume_check_only_for_candidates [where env = env_ok
      and req = "resume_request ''u2'' JNull"
      and resumeId = "JStr ''r1''" and userId = "JStr ''u2''"
      and reply = "JObj [(''data'', stored_resume), (''error'', JNull)]"
      and data = stored_resume and error = JNull and candidate_id = "JStr ''u1''"
      and answer = "JObj [(''data'', JObj [(''user_type'', JStr ''candidate'')]), (''error'', JNull)]"
      and profile = "JObj [(''user_type'', JStr ''candidate'')]"]
  by (simp add: sample_defs env_recruiter_def env_no_profile_def)

section \<open>Properties of deleting a resume\<close>



end
